theory Spec2Isabelle
  imports Complex_Main
begin

section \<open>Library values used by the services\<close>

text \<open>
  The services are Python scripts: two FastAPI applications with CORS middleware
  (\<^verbatim>\<open>backend_cors_fix_weather_api.py\<close>, \<^verbatim>\<open>backend_cors_fix_solar_api.py\<close>) and an
  earlier example (\<^verbatim>\<open>weather_api_example.py\<close>). Their generators read the wall clock
  once, draw from the process-wide random source and build a list of records.

  Python floats are modelled as \<^typ>\<open>real\<close>: every property proved below is about order,
  clamping and rounding to a decimal grid, and is stated for the exact value of each
  expression. A naive \<^verbatim>\<open>datetime\<close> is the number of microseconds since
  0001-01-01T00:00:00 and a \<^verbatim>\<open>timedelta\<close> a number of microseconds; the clock reading
  \<^verbatim>\<open>datetime.now()\<close> is a parameter \<open>now\<close> and is taken to lie far enough from
  \<^verbatim>\<open>datetime.min\<close> and \<^verbatim>\<open>datetime.max\<close> for the arithmetic to stay in range.
\<close>

type_synonym datetime = int
type_synonym timedelta = int

definition timedelta_minutes :: "int \<Rightarrow> timedelta" where
  "timedelta_minutes m = m * 60000000"

definition timedelta_hours :: "int \<Rightarrow> timedelta" where
  "timedelta_hours h = h * 3600000000"

definition dt_hour :: "datetime \<Rightarrow> int" where
  "dt_hour t = (t div 3600000000) mod 24"

text \<open>
  \<^verbatim>\<open>datetime.min\<close> is the instant 0 and \<^verbatim>\<open>datetime.max\<close>, the last microsecond of
  the year 9999, the instant below. Adding or subtracting a \<^verbatim>\<open>timedelta\<close> raises
  \<^verbatim>\<open>OverflowError\<close> when the result leaves this range. The generators are modelled
  without that branch: a statement about a \<open>limit\<close> beyond \<open>[1, 100]\<close> names the
  range of its instants as a hypothesis.
\<close>

definition datetime_max :: datetime where
  "datetime_max = 315537897599999999"

definition in_datetime_range :: "datetime \<Rightarrow> bool" where
  "in_datetime_range t = (0 \<le> t \<and> t \<le> datetime_max)"

text \<open>
  The random source is the sequence of values that successive calls of
  \<^verbatim>\<open>random.random()\<close> return, each in \<open>[0, 1)\<close>; the state threaded through a
  generator is the number of values consumed so far. \<^verbatim>\<open>random.uniform(a, b)\<close> is
  \<^verbatim>\<open>a + (b - a) * random()\<close>.
\<close>

type_synonym random_source = "nat \<Rightarrow> real"

definition in_unit_interval :: "random_source \<Rightarrow> bool" where
  "in_unit_interval src = (\<forall>k. 0 \<le> src k \<and> src k < 1)"

definition uniform :: "random_source \<Rightarrow> real \<Rightarrow> real \<Rightarrow> nat \<Rightarrow> real \<times> nat" where
  "uniform src a b k = (a + (b - a) * src k, Suc k)"

text \<open>\<^verbatim>\<open>round(x, ndigits)\<close>: to the nearest multiple of \<open>10^-ndigits\<close>, ties to even.\<close>

definition round_half_even :: "real \<Rightarrow> int" where
  "round_half_even y =
     (let f = \<lfloor>y\<rfloor>; d = y - of_int f
      in if d < 1 / 2 then f else if 1 / 2 < d then f + 1 else if even f then f else f + 1)"

definition py_round :: "real \<Rightarrow> nat \<Rightarrow> real" where
  "py_round x ndigits = of_int (round_half_even (x * 10 ^ ndigits)) / 10 ^ ndigits"

text \<open>\<^verbatim>\<open>range(limit)\<close> is \<open>0, \<dots>, limit - 1\<close>, empty when \<open>limit \<le> 0\<close>.\<close>

definition py_range :: "int \<Rightarrow> int list" where
  "py_range n = [0..n - 1]"

text \<open>
  Every generator has the shape
  \<^verbatim>\<open>data = []; for i in range(limit): ...; data.append(record); return data\<close>.
  The loop body maps the index and the random state to the record and the new state.
\<close>

definition for_append ::
  "(int \<Rightarrow> nat \<Rightarrow> 'a \<times> nat) \<Rightarrow> int list \<Rightarrow> 'a list \<times> nat \<Rightarrow> 'a list \<times> nat" where
  "for_append body is st =
     fold (\<lambda>i (data, k). case body i k of (r, k') \<Rightarrow> (data @ [r], k')) is st"

section \<open>Weather service with the CORS fix\<close>

record weather_record =
  w_id :: int
  w_timestamp :: string
  w_temperature :: real
  w_relative_humidity_2m :: real
  w_wind_speed_10m :: real
  w_pressure_msl :: real
  w_cloud_cover :: real
  w_direct_normal_irradiance :: real
  w_latitude :: real
  w_longitude :: real
  w_data_type :: string

text \<open>
  The body of the loop of \<^verbatim>\<open>generate_weather_data\<close>. \<open>isoformat\<close> is
  \<^verbatim>\<open>datetime.isoformat\<close>, a parameter of the model.
\<close>

definition weather_data_body ::
  "(datetime \<Rightarrow> string) \<Rightarrow> datetime \<Rightarrow> random_source \<Rightarrow> int \<Rightarrow> int \<Rightarrow> nat
    \<Rightarrow> weather_record \<times> nat" where
  "weather_data_body isoformat now src limit i k0 =
     (let timestamp = now - timedelta_minutes ((limit - i - 1) * 5);
          hour = dt_hour timestamp;
          base_temp = 25 + sin (of_int (hour - 6) * pi / 12) * 8;
          (u1, k1) = uniform src (- 2) 2 k0;
          temperature = base_temp + u1;
          (u2, k2) = uniform src (- 15) 15 k1;
          humidity = max 30 (min 90 (60 + u2));
          (u3, k3) = uniform src (- 1) 3 k2;
          wind_speed = max 0 (3 + u3);
          (u4, k4) = uniform src (- 10) 10 k3;
          pressure = 1013 + u4;
          (cloud_cover, k5) = uniform src 0 80 k4;
          (irradiance, k6) =
            (if 6 \<le> hour \<and> hour \<le> 18 then
               (let base_irradiance = 800 * sin (of_int (hour - 6) * pi / 12);
                    cloud_factor = (100 - cloud_cover) / 100;
                    (u5, k6) = uniform src (- 50) 50 k5
                in (max 0 (base_irradiance * cloud_factor + u5), k6))
             else (0, k5))
      in (\<lparr>w_id = i + 1,
           w_timestamp = isoformat timestamp,
           w_temperature = py_round temperature 1,
           w_relative_humidity_2m = py_round humidity 1,
           w_wind_speed_10m = py_round wind_speed 1,
           w_pressure_msl = py_round pressure 1,
           w_cloud_cover = py_round cloud_cover 1,
           w_direct_normal_irradiance = py_round irradiance 1,
           w_latitude = 6.86666,
           w_longitude = 80.01667,
           w_data_type = ''forecast''\<rparr>, k6))"

definition generate_weather_data ::
  "(datetime \<Rightarrow> string) \<Rightarrow> datetime \<Rightarrow> random_source \<Rightarrow> int \<Rightarrow> weather_record list" where
  "generate_weather_data isoformat now src limit =
     fst (for_append (weather_data_body isoformat now src limit) (py_range limit) ([], 0))"

section \<open>Solar service with the CORS fix\<close>

record weather_conditions =
  c_temperature :: real
  c_relative_humidity_2m :: real
  c_wind_speed_10m :: real
  c_cloud_cover :: real
  c_direct_normal_irradiance :: real

record location =
  l_latitude :: real
  l_longitude :: real

text \<open>
  One record type for both solar series: the key \<^verbatim>\<open>forecast_type\<close> is present in the
  forecast series only.
\<close>

record solar_prediction =
  s_id :: int
  s_timestamp :: string
  predicted_power_kw :: real
  conditions :: weather_conditions
  s_location :: location
  forecast_type :: "string option"

definition realtime_body ::
  "(datetime \<Rightarrow> string) \<Rightarrow> datetime \<Rightarrow> random_source \<Rightarrow> int \<Rightarrow> int \<Rightarrow> nat
    \<Rightarrow> solar_prediction \<times> nat" where
  "realtime_body isoformat now src limit i k0 =
     (let timestamp = now - timedelta_minutes ((limit - i - 1) * 5);
          hour = dt_hour timestamp;
          (predicted_power, k1) =
            (if 6 \<le> hour \<and> hour \<le> 18 then
               (let solar_curve = sin (of_int (hour - 6) * pi / 12);
                    base_power = solar_curve * 5;
                    (u0, k1) = uniform src (- 0.5) 0.5 k0
                in (max 0 (base_power + u0), k1))
             else (0, k0));
          (u1, k2) = uniform src (- 2) 2 k1;
          temp = 25 + sin (of_int (hour - 6) * pi / 12) * 8 + u1;
          (u2, k3) = uniform src (- 15) 15 k2;
          humidity = max 30 (min 90 (60 + u2));
          (u3, k4) = uniform src (- 1) 2 k3;
          (u4, k5) = uniform src 0 60 k4
      in (\<lparr>s_id = i + 1,
           s_timestamp = isoformat timestamp,
           predicted_power_kw = py_round predicted_power 2,
           conditions =
             \<lparr>c_temperature = py_round temp 1,
              c_relative_humidity_2m = py_round humidity 1,
              c_wind_speed_10m = py_round (3 + u3) 1,
              c_cloud_cover = py_round u4 1,
              c_direct_normal_irradiance =
                py_round (if 6 \<le> hour \<and> hour \<le> 18
                          then max 0 (800 * sin (of_int (hour - 6) * pi / 12)) else 0) 1\<rparr>,
           s_location = \<lparr>l_latitude = 6.86666, l_longitude = 80.01667\<rparr>,
           forecast_type = None\<rparr>, k5))"

definition generate_realtime_predictions ::
  "(datetime \<Rightarrow> string) \<Rightarrow> datetime \<Rightarrow> random_source \<Rightarrow> int \<Rightarrow> solar_prediction list" where
  "generate_realtime_predictions isoformat now src limit =
     fst (for_append (realtime_body isoformat now src limit) (py_range limit) ([], 0))"

definition forecast_body ::
  "(datetime \<Rightarrow> string) \<Rightarrow> datetime \<Rightarrow> random_source \<Rightarrow> int \<Rightarrow> nat
    \<Rightarrow> solar_prediction \<times> nat" where
  "forecast_body isoformat now src i k0 =
     (let timestamp = now + timedelta_hours i;
          hour = dt_hour timestamp;
          (predicted_power, k1) =
            (if 6 \<le> hour \<and> hour \<le> 18 then
               (let solar_curve = sin (of_int (hour - 6) * pi / 12);
                    base_power = solar_curve * 6;
                    (u0, k1) = uniform src (- 0.8) 0.8 k0
                in (max 0 (base_power + u0), k1))
             else (0, k0));
          (u1, k2) = uniform src (- 1.5) 1.5 k1;
          temp = 26 + sin (of_int (hour - 6) * pi / 12) * 7 + u1;
          (u2, k3) = uniform src (- 12) 12 k2;
          humidity = max 35 (min 85 (55 + u2));
          (u3, k4) = uniform src (- 0.5) 2 k3;
          (u4, k5) = uniform src 0 50 k4
      in (\<lparr>s_id = i + 1,
           s_timestamp = isoformat timestamp,
           predicted_power_kw = py_round predicted_power 2,
           conditions =
             \<lparr>c_temperature = py_round temp 1,
              c_relative_humidity_2m = py_round humidity 1,
              c_wind_speed_10m = py_round (2.5 + u3) 1,
              c_cloud_cover = py_round u4 1,
              c_direct_normal_irradiance =
                py_round (if 6 \<le> hour \<and> hour \<le> 18
                          then max 0 (850 * sin (of_int (hour - 6) * pi / 12)) else 0) 1\<rparr>,
           s_location = \<lparr>l_latitude = 6.86666, l_longitude = 80.01667\<rparr>,
           forecast_type = Some ''hourly''\<rparr>, k5))"

definition generate_forecast_predictions ::
  "(datetime \<Rightarrow> string) \<Rightarrow> datetime \<Rightarrow> random_source \<Rightarrow> int \<Rightarrow> solar_prediction list" where
  "generate_forecast_predictions isoformat now src limit =
     fst (for_append (forecast_body isoformat now src) (py_range limit) ([], 0))"

section \<open>The earlier weather example\<close>

text \<open>The pydantic model \<^verbatim>\<open>WeatherData\<close>; its \<^verbatim>\<open>timestamp\<close> is a datetime.\<close>

record WeatherData =
  wd_id :: int
  wd_timestamp :: datetime
  wd_temperature :: real
  wd_relative_humidity_2m :: real
  wd_wind_speed_10m :: real
  wd_pressure_msl :: real
  wd_cloud_cover :: real
  wd_direct_normal_irradiance :: real
  wd_latitude :: real
  wd_longitude :: real
  wd_data_type :: string

definition sample_weather_body ::
  "datetime \<Rightarrow> random_source \<Rightarrow> string \<Rightarrow> int \<Rightarrow> nat \<Rightarrow> WeatherData \<times> nat" where
  "sample_weather_body base_time src data_type i k0 =
     (let timestamp = base_time + timedelta_hours i;
          hour = dt_hour timestamp;
          base_temp = 20 + 10 * of_int \<bar>12 - hour\<bar> / 12;
          (u1, k1) = uniform src (- 3) 3 k0;
          temperature = base_temp + u1;
          (u2, k2) = uniform src (- 20) 20 k1;
          humidity = 60 + u2;
          (u3, k3) = uniform src (- 2) 5 k2;
          wind_speed = 5 + u3;
          (u4, k4) = uniform src (- 10) 10 k3;
          pressure = 1013 + u4;
          (cloud_cover, k5) = uniform src 0 100 k4;
          (irradiance0, k6) =
            (if 6 \<le> hour \<and> hour \<le> 18 then
               (let max_irradiance = 1000 * (1 - cloud_cover / 100);
                    time_factor = of_int \<bar>12 - hour\<bar> / 6;
                    (u5, k6) = uniform src (- 50) 50 k5
                in (max_irradiance * (1 - time_factor) + u5, k6))
             else (0, k5));
          irradiance = max 0 irradiance0
      in (\<lparr>wd_id = i + 1,
           wd_timestamp = timestamp,
           wd_temperature = py_round temperature 1,
           wd_relative_humidity_2m = py_round (max 0 (min 100 humidity)) 1,
           wd_wind_speed_10m = py_round (max 0 wind_speed) 1,
           wd_pressure_msl = py_round pressure 1,
           wd_cloud_cover = py_round (max 0 (min 100 cloud_cover)) 1,
           wd_direct_normal_irradiance = py_round irradiance 1,
           wd_latitude = 6.86666,
           wd_longitude = 80.01667,
           wd_data_type = data_type\<rparr>, k6))"

definition generate_sample_weather_data ::
  "datetime \<Rightarrow> random_source \<Rightarrow> int \<Rightarrow> string \<Rightarrow> WeatherData list" where
  "generate_sample_weather_data base_time src limit data_type =
     fst (for_append (sample_weather_body base_time src data_type) (py_range limit) ([], 0))"

section \<open>Endpoints\<close>

text \<open>
  Modelled from the spec: the host framework (FastAPI), which is not part of the
  repository, parses and validates the query parameters before the endpoint function
  runs. A \<^verbatim>\<open>limit\<close> that is not an integer, or one outside the bounds that a
  \<^verbatim>\<open>Query(default, ge=.., le=..)\<close> declaration gives, is answered with status 422 and
  the endpoint function is not called; a parameter that is absent takes its default. A
  parameter declared as a plain \<^verbatim>\<open>int\<close> carries no bounds.
\<close>

datatype query_value = Absent | NotAnInteger | Integer int

datatype 'a http_response = HTTP_200 'a | HTTP_422

definition Query :: "int \<Rightarrow> int \<Rightarrow> int \<Rightarrow> query_value \<Rightarrow> int option" where
  "Query dflt ge le q =
     (case q of
        Absent \<Rightarrow> Some dflt
      | NotAnInteger \<Rightarrow> None
      | Integer v \<Rightarrow> if ge \<le> v \<and> v \<le> le then Some v else None)"

definition plain_int :: "int \<Rightarrow> query_value \<Rightarrow> int option" where
  "plain_int dflt q =
     (case q of Absent \<Rightarrow> Some dflt | NotAnInteger \<Rightarrow> None | Integer v \<Rightarrow> Some v)"

definition plain_str :: "string \<Rightarrow> string option \<Rightarrow> string" where
  "plain_str dflt q = (case q of None \<Rightarrow> dflt | Some v \<Rightarrow> v)"

text \<open>\<^verbatim>\<open>backend_cors_fix_weather_api.py\<close>: \<^verbatim>\<open>/weather/data\<close> and \<^verbatim>\<open>/weather-data\<close>.\<close>

definition get_weather_data ::
  "(datetime \<Rightarrow> string) \<Rightarrow> datetime \<Rightarrow> random_source \<Rightarrow> query_value
    \<Rightarrow> weather_record list http_response" where
  "get_weather_data isoformat now src limit_q =
     (case Query 20 1 100 limit_q of
        None \<Rightarrow> HTTP_422
      | Some limit \<Rightarrow> HTTP_200 (generate_weather_data isoformat now src limit))"

definition get_weather_data_alt ::
  "(datetime \<Rightarrow> string) \<Rightarrow> datetime \<Rightarrow> random_source \<Rightarrow> query_value \<Rightarrow> string option
    \<Rightarrow> weather_record list http_response" where
  "get_weather_data_alt isoformat now src limit_q data_type_q =
     (case Query 20 1 100 limit_q of
        None \<Rightarrow> HTTP_422
      | Some limit \<Rightarrow>
          (let data_type = plain_str ''forecast'' data_type_q
           in HTTP_200 (generate_weather_data isoformat now src limit)))"

text \<open>\<^verbatim>\<open>backend_cors_fix_solar_api.py\<close>: \<^verbatim>\<open>/solar-predictions\<close> and its forecast.\<close>

definition get_solar_predictions ::
  "(datetime \<Rightarrow> string) \<Rightarrow> datetime \<Rightarrow> random_source \<Rightarrow> query_value
    \<Rightarrow> solar_prediction list http_response" where
  "get_solar_predictions isoformat now src limit_q =
     (case Query 24 1 100 limit_q of
        None \<Rightarrow> HTTP_422
      | Some limit \<Rightarrow> HTTP_200 (generate_realtime_predictions isoformat now src limit))"

definition get_forecast_predictions ::
  "(datetime \<Rightarrow> string) \<Rightarrow> datetime \<Rightarrow> random_source \<Rightarrow> query_value
    \<Rightarrow> solar_prediction list http_response" where
  "get_forecast_predictions isoformat now src limit_q =
     (case Query 24 1 100 limit_q of
        None \<Rightarrow> HTTP_422
      | Some limit \<Rightarrow> HTTP_200 (generate_forecast_predictions isoformat now src limit))"

text \<open>
  \<^verbatim>\<open>weather_api_example.py\<close>: the same two paths, with \<^verbatim>\<open>limit: int = 20\<close>. Its
  \<^verbatim>\<open>get_weather_data\<close> is named \<open>example_get_weather_data\<close> here.
\<close>

definition example_get_weather_data ::
  "datetime \<Rightarrow> random_source \<Rightarrow> query_value \<Rightarrow> WeatherData list http_response" where
  "example_get_weather_data now src limit_q =
     (case plain_int 20 limit_q of
        None \<Rightarrow> HTTP_422
      | Some limit \<Rightarrow> HTTP_200 (generate_sample_weather_data now src limit ''forecast''))"

definition get_weather_data_alternative ::
  "datetime \<Rightarrow> random_source \<Rightarrow> query_value \<Rightarrow> string option
    \<Rightarrow> WeatherData list http_response" where
  "get_weather_data_alternative now src limit_q data_type_q =
     (case plain_int 20 limit_q of
        None \<Rightarrow> HTTP_422
      | Some limit \<Rightarrow>
          HTTP_200 (generate_sample_weather_data now src limit
                      (plain_str ''forecast'' data_type_q)))"

section \<open>CORS configuration\<close>

record cors_config =
  allow_origins :: "string list"
  allow_credentials :: bool
  allow_methods :: "string list"
  allow_headers :: "string list"

definition weather_cors :: cors_config where
  "weather_cors =
     \<lparr>allow_origins =
        [''http://localhost:5173'', ''http://127.0.0.1:5173'', ''http://localhost:3000'',
         ''http://localhost:5174'', ''http://localhost:8080''],
      allow_credentials = True,
      allow_methods = [''GET'', ''POST'', ''PUT'', ''DELETE'', ''OPTIONS''],
      allow_headers = [''*'']\<rparr>"

definition solar_cors :: cors_config where
  "solar_cors =
     \<lparr>allow_origins =
        [''http://localhost:5173'', ''http://127.0.0.1:5173'', ''http://localhost:3000'',
         ''http://localhost:5174'', ''http://localhost:8080''],
      allow_credentials = True,
      allow_methods = [''GET'', ''POST'', ''PUT'', ''DELETE'', ''OPTIONS''],
      allow_headers = [''*'']\<rparr>"

definition example_cors :: cors_config where
  "example_cors =
     \<lparr>allow_origins =
        [''http://localhost:5173'', ''http://127.0.0.1:5173'', ''http://localhost:3000''],
      allow_credentials = True,
      allow_methods = [''*''],
      allow_headers = [''*'']\<rparr>"

text \<open>
  Modelled from the spec: the CORS middleware of the host framework, which is not part
  of the repository. The spec asks that a preflight \<^verbatim>\<open>OPTIONS\<close> request be accepted
  with \<^verbatim>\<open>Access-Control-Allow-Origin\<close> reflecting an origin of the fixed allow-list,
  \<^verbatim>\<open>Access-Control-Allow-Credentials: true\<close>, the allowed methods and the allowed
  headers. The middleware wraps the whole application, so the answer does not depend on
  the path. The spec words no answer for an origin off the list; the model refuses
  it without the header.
\<close>

record preflight_response =
  status :: nat
  access_control_allow_origin :: "string option"
  access_control_allow_credentials :: bool
  access_control_allow_methods :: "string list"
  access_control_allow_headers :: "string list"

definition preflight :: "cors_config \<Rightarrow> string \<Rightarrow> string \<Rightarrow> preflight_response" where
  "preflight cfg path origin =
     (if origin \<in> set (allow_origins cfg) then
        \<lparr>status = 200,
         access_control_allow_origin = Some origin,
         access_control_allow_credentials = allow_credentials cfg,
         access_control_allow_methods = allow_methods cfg,
         access_control_allow_headers = allow_headers cfg\<rparr>
      else
        \<lparr>status = 400,
         access_control_allow_origin = None,
         access_control_allow_credentials = False,
         access_control_allow_methods = [],
         access_control_allow_headers = []\<rparr>)"

section \<open>The series as the specification words them\<close>

text \<open>
  The backward series: for index \<open>i\<close> in \<open>[0, limit)\<close> the instant
  \<open>now - (limit - i - 1) \<times> 5 minutes\<close>. The forward series: \<open>now + i hours\<close>.
\<close>

definition backward_series :: "datetime \<Rightarrow> int \<Rightarrow> datetime list" where
  "backward_series now limit =
     map (\<lambda>i. now - timedelta_minutes ((limit - i - 1) * 5)) (py_range limit)"

definition forward_series :: "datetime \<Rightarrow> int \<Rightarrow> datetime list" where
  "forward_series now limit = map (\<lambda>i. now + timedelta_hours i) (py_range limit)"

section \<open>Concrete inputs\<close>

text \<open>
  A random source that returns the same value at every draw, and a rendering of
  instants that stands for \<^verbatim>\<open>isoformat\<close> in closed instances.
\<close>

definition fixed_draws :: "real \<Rightarrow> random_source" where
  "fixed_draws u k = u"

definition blank_isoformat :: "datetime \<Rightarrow> string" where
  "blank_isoformat t = []"

section \<open>The loop\<close>

lemma for_append_shape:
  "\<exists>ks. length ks = length is \<and>
        fst (for_append body is (data, k)) = data @ map2 (\<lambda>i k. fst (body i k)) is ks"
proof (induction "is" arbitrary: data k)
  case Nil
  then show ?case by (simp add: for_append_def)
next
  case (Cons i "is")
  obtain r k' where step: "body i k = (r, k')" by (cases "body i k")
  from Cons.IH [of "data @ [r]" k'] obtain ks where
    ks: "length ks = length is"
    "fst (for_append body is (data @ [r], k')) =
       (data @ [r]) @ map2 (\<lambda>i k. fst (body i k)) is ks"
    by blast
  have "fst (for_append body (i # is) (data, k)) =
          data @ map2 (\<lambda>i k. fst (body i k)) (i # is) (k # ks)"
    using ks(2) step by (simp add: for_append_def)
  moreover have "length (k # ks) = length (i # is)" using ks(1) by simp
  ultimately show ?case by blast
qed

lemma for_append_length:
  "length (fst (for_append body is ([], k))) = length is"
proof -
  obtain ks where "length ks = length is"
    "fst (for_append body is ([], k)) = [] @ map2 (\<lambda>i k. fst (body i k)) is ks"
    using for_append_shape [of "is" body "[]" k] by blast
  then show ?thesis by simp
qed

lemma for_append_nth:
  assumes "j < length is"
  shows "\<exists>k'. fst (for_append body is ([], k)) ! j = fst (body (is ! j) k')"
proof -
  obtain ks where ks: "length ks = length is"
    "fst (for_append body is ([], k)) = [] @ map2 (\<lambda>i k. fst (body i k)) is ks"
    using for_append_shape [of "is" body "[]" k] by blast
  then have "fst (for_append body is ([], k)) ! j = fst (body (is ! j) (ks ! j))"
    using assms by simp
  then show ?thesis by blast
qed

lemma for_append_set:
  assumes "r \<in> set (fst (for_append body is ([], k)))"
  shows "\<exists>i k'. i \<in> set is \<and> r = fst (body i k')"
proof -
  from assms obtain j where j: "j < length (fst (for_append body is ([], k)))"
    "r = fst (for_append body is ([], k)) ! j"
    by (auto simp: in_set_conv_nth)
  then have "j < length is" by (simp add: for_append_length)
  with for_append_nth [of j "is" body k] j(2) show ?thesis
    by (metis nth_mem)
qed

lemma for_append_map:
  assumes "\<And>i k. f (fst (body i k)) = g i"
  shows "map f (fst (for_append body is ([], k))) = map g is"
proof (rule nth_equalityI)
  show "length (map f (fst (for_append body is ([], k)))) = length (map g is)"
    by (simp add: for_append_length)
next
  fix j assume "j < length (map f (fst (for_append body is ([], k))))"
  then have j: "j < length is" by (simp add: for_append_length)
  with for_append_nth [of j "is" body k] assms
  show "map f (fst (for_append body is ([], k))) ! j = map g is ! j"
    by (auto simp: for_append_length)
qed

lemma length_py_range: "length (py_range n) = nat n"
  by (simp add: py_range_def)

lemma py_range_nth: "j < nat n \<Longrightarrow> py_range n ! j = int j"
  by (simp add: py_range_def)

lemma py_range_empty: "n \<le> 0 \<Longrightarrow> py_range n = []"
  by (simp add: py_range_def)

section \<open>Rounding and drawing\<close>

lemma round_half_even_ge: "of_int m \<le> y \<Longrightarrow> m \<le> round_half_even y"
proof -
  assume "of_int m \<le> y"
  then have "m \<le> \<lfloor>y\<rfloor>" by (simp add: le_floor_iff)
  then show ?thesis by (simp add: round_half_even_def Let_def)
qed

lemma round_half_even_le: "y \<le> of_int m \<Longrightarrow> round_half_even y \<le> m"
proof (cases "y = of_int m")
  case True
  then show ?thesis by (simp add: round_half_even_def Let_def)
next
  case False
  assume "y \<le> of_int m"
  with False have "y < of_int m" by simp
  then have "\<lfloor>y\<rfloor> < m" by (simp add: floor_less_iff)
  then show ?thesis by (simp add: round_half_even_def Let_def)
qed

lemma py_round_ge: "of_int m \<le> x \<Longrightarrow> of_int m \<le> py_round x n"
proof -
  assume "of_int m \<le> x"
  then have "of_int (m * 10 ^ n) \<le> x * 10 ^ n" by simp
  then have "m * 10 ^ n \<le> round_half_even (x * 10 ^ n)" by (rule round_half_even_ge)
  then have "(of_int (m * 10 ^ n) :: real) \<le> of_int (round_half_even (x * 10 ^ n))"
    by (simp only: of_int_le_iff)
  then show ?thesis by (simp add: py_round_def pos_le_divide_eq)
qed

lemma py_round_le: "x \<le> of_int m \<Longrightarrow> py_round x n \<le> of_int m"
proof -
  assume "x \<le> of_int m"
  then have "x * 10 ^ n \<le> of_int (m * 10 ^ n)" by simp
  then have "round_half_even (x * 10 ^ n) \<le> m * 10 ^ n" by (rule round_half_even_le)
  then have "(of_int (round_half_even (x * 10 ^ n)) :: real) \<le> of_int (m * 10 ^ n)"
    by (simp only: of_int_le_iff)
  then show ?thesis by (simp add: py_round_def pos_divide_le_eq)
qed

lemma py_round_nonneg: "0 \<le> x \<Longrightarrow> 0 \<le> py_round x n"
  using py_round_ge [of 0 x n] by simp

lemma py_round_zero: "py_round 0 n = 0"
  by (simp add: py_round_def round_half_even_def)

lemma py_round_ge_numeral: "numeral w \<le> x \<Longrightarrow> numeral w \<le> py_round x n"
  using py_round_ge [of "numeral w" x n] by simp

lemma py_round_le_numeral: "x \<le> numeral w \<Longrightarrow> py_round x n \<le> numeral w"
  using py_round_le [of x "numeral w" n] by simp

lemma unit_draw: "in_unit_interval src \<Longrightarrow> 0 \<le> src k \<and> src k \<le> 1"
  by (simp add: in_unit_interval_def less_imp_le)

section \<open>One pass of each loop\<close>

lemma weather_data_body_irradiance:
  "0 \<le> w_direct_normal_irradiance (fst (weather_data_body isoformat now src limit i k))"
  by (simp add: weather_data_body_def Let_def uniform_def split_def py_round_nonneg py_round_zero)

lemma weather_data_body_id: "w_id (fst (weather_data_body isoformat now src limit i k)) = i + 1"
  by (simp add: weather_data_body_def Let_def uniform_def split: prod.splits)

lemma weather_data_body_timestamp:
  "w_timestamp (fst (weather_data_body isoformat now src limit i k)) =
     isoformat (now - timedelta_minutes ((limit - i - 1) * 5))"
  by (simp add: weather_data_body_def Let_def uniform_def split: prod.splits)

lemma weather_data_body_data_type:
  "w_data_type (fst (weather_data_body isoformat now src limit i k)) = ''forecast''"
  by (simp add: weather_data_body_def Let_def uniform_def split: prod.splits)

lemma realtime_body_id: "s_id (fst (realtime_body isoformat now src limit i k)) = i + 1"
  by (simp add: realtime_body_def Let_def uniform_def split: prod.splits)

lemma forecast_body_id: "s_id (fst (forecast_body isoformat now src i k)) = i + 1"
  by (simp add: forecast_body_def Let_def uniform_def split: prod.splits)

lemma map_succ_py_range: "map (\<lambda>i. i + 1) (py_range n) = [1..n]"
  by (rule nth_equalityI) (simp_all add: py_range_def)


lemma weather_data_body_humidity:
  "30 \<le> w_relative_humidity_2m (fst (weather_data_body isoformat now src limit i k)) \<and>
   w_relative_humidity_2m (fst (weather_data_body isoformat now src limit i k)) \<le> 90"
  by (simp add: weather_data_body_def Let_def uniform_def split_def
      py_round_ge_numeral py_round_le_numeral)

lemma weather_data_body_cloud_cover:
  assumes "in_unit_interval src"
  shows "0 \<le> w_cloud_cover (fst (weather_data_body isoformat now src limit i k)) \<and>
         w_cloud_cover (fst (weather_data_body isoformat now src limit i k)) \<le> 80"
  using unit_draw [OF assms]
  by (simp add: weather_data_body_def Let_def uniform_def split_def
      py_round_nonneg py_round_le_numeral)

lemma realtime_body_nonneg:
  "0 \<le> predicted_power_kw (fst (realtime_body isoformat now src limit i k)) \<and>
   0 \<le> c_direct_normal_irradiance (conditions (fst (realtime_body isoformat now src limit i k)))"
  by (simp add: realtime_body_def Let_def uniform_def split_def py_round_nonneg py_round_zero)

lemma realtime_body_night:
  assumes "\<not> (6 \<le> dt_hour (now - timedelta_minutes ((limit - i - 1) * 5)) \<and>
              dt_hour (now - timedelta_minutes ((limit - i - 1) * 5)) \<le> 18)"
  shows "predicted_power_kw (fst (realtime_body isoformat now src limit i k)) = 0 \<and>
   c_direct_normal_irradiance (conditions (fst (realtime_body isoformat now src limit i k))) = 0"
proof -
  define hour where "hour = dt_hour (now - timedelta_minutes ((limit - i - 1) * 5))"
  have night: "(6 \<le> hour \<and> hour \<le> 18) = False" using assms by (simp add: hour_def)
  show ?thesis
    unfolding realtime_body_def Let_def hour_def [symmetric] night
    by (simp add: uniform_def split_def py_round_zero)
qed

lemma realtime_body_bounds:
  assumes "in_unit_interval src"
  shows "30 \<le> c_relative_humidity_2m (conditions (fst (realtime_body isoformat now src limit i k))) \<and>
   c_relative_humidity_2m (conditions (fst (realtime_body isoformat now src limit i k))) \<le> 90 \<and>
   0 \<le> c_cloud_cover (conditions (fst (realtime_body isoformat now src limit i k))) \<and>
   c_cloud_cover (conditions (fst (realtime_body isoformat now src limit i k))) \<le> 60"
  using unit_draw [OF assms]
  by (simp add: realtime_body_def Let_def uniform_def split_def
      py_round_nonneg py_round_ge_numeral py_round_le_numeral)

lemma sample_weather_body_bounds:
  assumes "in_unit_interval src"
  shows "35 \<le> wd_relative_humidity_2m (fst (sample_weather_body now src dt i k)) \<and>
   wd_relative_humidity_2m (fst (sample_weather_body now src dt i k)) \<le> 85 \<and>
   0 \<le> wd_cloud_cover (fst (sample_weather_body now src dt i k)) \<and>
   wd_cloud_cover (fst (sample_weather_body now src dt i k)) \<le> 100"
proof -
  have u: "0 \<le> src (Suc k)" "src (Suc k) \<le> 1" using unit_draw [OF assms] by simp_all
  have "35 \<le> max 0 (min 100 (60 + (- 20 + 40 * src (Suc k))))" using u by simp
  moreover have "max 0 (min 100 (60 + (- 20 + 40 * src (Suc k)))) \<le> 85" using u by simp
  ultimately show ?thesis
    by (simp add: sample_weather_body_def Let_def uniform_def split_def
      py_round_nonneg py_round_ge_numeral py_round_le_numeral)
qed

lemma realtime_body_timestamp:
  "s_timestamp (fst (realtime_body isoformat now src limit i k)) =
     isoformat (now - timedelta_minutes ((limit - i - 1) * 5))"
  by (simp add: realtime_body_def Let_def uniform_def split_def)

lemma forecast_body_timestamp:
  "s_timestamp (fst (forecast_body isoformat now src i k)) = isoformat (now + timedelta_hours i)"
  by (simp add: forecast_body_def Let_def uniform_def split_def)

lemma forecast_body_forecast_type:
  "forecast_type (fst (forecast_body isoformat now src i k)) = Some ''hourly''"
  by (simp add: forecast_body_def Let_def uniform_def split_def)

lemma sample_weather_body_timestamp:
  "wd_timestamp (fst (sample_weather_body now src dt i k)) = now + timedelta_hours i"
  by (simp add: sample_weather_body_def Let_def uniform_def split_def)

lemma forecast_body_nonneg:
  "0 \<le> predicted_power_kw (fst (forecast_body isoformat now src i k)) \<and>
   0 \<le> c_direct_normal_irradiance (conditions (fst (forecast_body isoformat now src i k)))"
  by (simp add: forecast_body_def Let_def uniform_def split_def py_round_nonneg py_round_zero)

lemma forecast_body_night:
  assumes "\<not> (6 \<le> dt_hour (now + timedelta_hours i) \<and> dt_hour (now + timedelta_hours i) \<le> 18)"
  shows "predicted_power_kw (fst (forecast_body isoformat now src i k)) = 0 \<and>
   c_direct_normal_irradiance (conditions (fst (forecast_body isoformat now src i k))) = 0"
proof -
  define hour where "hour = dt_hour (now + timedelta_hours i)"
  have night: "(6 \<le> hour \<and> hour \<le> 18) = False" using assms by (simp add: hour_def)
  show ?thesis
    unfolding forecast_body_def Let_def hour_def [symmetric] night
    by (simp add: uniform_def split_def py_round_zero)
qed

lemma forecast_body_bounds:
  assumes "in_unit_interval src"
  shows "35 \<le> c_relative_humidity_2m (conditions (fst (forecast_body isoformat now src i k))) \<and>
   c_relative_humidity_2m (conditions (fst (forecast_body isoformat now src i k))) \<le> 85 \<and>
   0 \<le> c_cloud_cover (conditions (fst (forecast_body isoformat now src i k))) \<and>
   c_cloud_cover (conditions (fst (forecast_body isoformat now src i k))) \<le> 50"
  using unit_draw [OF assms]
  by (simp add: forecast_body_def Let_def uniform_def split_def
      py_round_nonneg py_round_ge_numeral py_round_le_numeral)

lemma sample_weather_body_irradiance:
  "0 \<le> wd_direct_normal_irradiance (fst (sample_weather_body now src dt i k))"
  by (simp add: sample_weather_body_def Let_def uniform_def split_def py_round_nonneg)

section \<open>The generators\<close>

lemma generate_weather_data_length:
  "length (generate_weather_data isoformat now src limit) = nat limit"
  by (simp add: generate_weather_data_def for_append_length length_py_range)

lemma generate_realtime_predictions_length:
  "length (generate_realtime_predictions isoformat now src limit) = nat limit"
  by (simp add: generate_realtime_predictions_def for_append_length length_py_range)

lemma generate_forecast_predictions_length:
  "length (generate_forecast_predictions isoformat now src limit) = nat limit"
  by (simp add: generate_forecast_predictions_def for_append_length length_py_range)

lemma generate_sample_weather_data_length:
  "length (generate_sample_weather_data now src limit dt) = nat limit"
  by (simp add: generate_sample_weather_data_def for_append_length length_py_range)

lemma generate_realtime_predictions_nth:
  assumes "j < nat limit"
  shows "\<exists>k. generate_realtime_predictions isoformat now src limit ! j =
              fst (realtime_body isoformat now src limit (int j) k)"
  using for_append_nth [of j "py_range limit" "realtime_body isoformat now src limit" 0] assms
  by (simp add: generate_realtime_predictions_def length_py_range py_range_nth)

lemma generate_forecast_predictions_nth:
  assumes "j < nat limit"
  shows "\<exists>k. generate_forecast_predictions isoformat now src limit ! j =
              fst (forecast_body isoformat now src (int j) k)"
  using for_append_nth [of j "py_range limit" "forecast_body isoformat now src" 0] assms
  by (simp add: generate_forecast_predictions_def length_py_range py_range_nth)

lemma generate_weather_data_set:
  assumes "r \<in> set (generate_weather_data isoformat now src limit)"
  shows "\<exists>i k. r = fst (weather_data_body isoformat now src limit i k)"
  using for_append_set [of r "weather_data_body isoformat now src limit" "py_range limit" 0] assms
  by (auto simp: generate_weather_data_def)

lemma generate_realtime_predictions_set:
  assumes "r \<in> set (generate_realtime_predictions isoformat now src limit)"
  shows "\<exists>i k. r = fst (realtime_body isoformat now src limit i k)"
  using for_append_set [of r "realtime_body isoformat now src limit" "py_range limit" 0] assms
  by (auto simp: generate_realtime_predictions_def)

lemma generate_forecast_predictions_set:
  assumes "r \<in> set (generate_forecast_predictions isoformat now src limit)"
  shows "\<exists>i k. r = fst (forecast_body isoformat now src i k)"
  using for_append_set [of r "forecast_body isoformat now src" "py_range limit" 0] assms
  by (auto simp: generate_forecast_predictions_def)

lemma generate_sample_weather_data_set:
  assumes "r \<in> set (generate_sample_weather_data now src limit dt)"
  shows "\<exists>i k. r = fst (sample_weather_body now src dt i k)"
  using for_append_set [of r "sample_weather_body now src dt" "py_range limit" 0] assms
  by (auto simp: generate_sample_weather_data_def)

lemma generate_weather_data_ids:
  "map w_id (generate_weather_data isoformat now src limit) = [1..limit]"
  unfolding generate_weather_data_def
  by (simp add: for_append_map [where g = "\<lambda>i. i + 1"] weather_data_body_id map_succ_py_range)

lemma generate_realtime_predictions_ids:
  "map s_id (generate_realtime_predictions isoformat now src limit) = [1..limit]"
  unfolding generate_realtime_predictions_def
  by (simp add: for_append_map [where g = "\<lambda>i. i + 1"] realtime_body_id map_succ_py_range)

lemma generate_forecast_predictions_ids:
  "map s_id (generate_forecast_predictions isoformat now src limit) = [1..limit]"
  unfolding generate_forecast_predictions_def
  by (simp add: for_append_map [where g = "\<lambda>i. i + 1"] forecast_body_id map_succ_py_range)

lemma py_range_2: "py_range 2 = [0, 1]"
  by (simp add: py_range_def upto.simps)

lemma py_range_1: "py_range 1 = [0]"
  by (simp add: py_range_def)

lemma generate_sample_weather_data_timestamps:
  "map wd_timestamp (generate_sample_weather_data now src limit dt) = forward_series now limit"
  unfolding generate_sample_weather_data_def forward_series_def
  by (rule for_append_map) (rule sample_weather_body_timestamp)

lemma generate_weather_data_timestamps:
  "map w_timestamp (generate_weather_data isoformat now src limit) =
     map isoformat (backward_series now limit)"
  unfolding generate_weather_data_def backward_series_def map_map comp_def
  by (rule for_append_map) (rule weather_data_body_timestamp)

lemma generate_realtime_predictions_timestamps:
  "map s_timestamp (generate_realtime_predictions isoformat now src limit) =
     map isoformat (backward_series now limit)"
  unfolding generate_realtime_predictions_def backward_series_def map_map comp_def
  by (rule for_append_map) (rule realtime_body_timestamp)

lemma generate_forecast_predictions_timestamps:
  "map s_timestamp (generate_forecast_predictions isoformat now src limit) =
     map isoformat (forward_series now limit)"
  unfolding generate_forecast_predictions_def forward_series_def map_map comp_def
  by (rule for_append_map) (rule forecast_body_timestamp)

lemma backward_series_length: "length (backward_series now limit) = nat limit"
  by (simp add: backward_series_def length_py_range)

lemma backward_series_nth:
  "j < nat limit \<Longrightarrow>
   backward_series now limit ! j = now - timedelta_minutes ((limit - int j - 1) * 5)"
  by (simp add: backward_series_def length_py_range py_range_nth)

lemma backward_series_step:
  assumes "Suc j < nat limit"
  shows "backward_series now limit ! Suc j = backward_series now limit ! j + timedelta_minutes 5"
proof -
  have "j < nat limit" using assms by simp
  then show ?thesis
    using assms by (simp add: backward_series_nth timedelta_minutes_def algebra_simps)
qed

lemma backward_series_last:
  assumes "1 \<le> limit"
  shows "last (backward_series now limit) = now"
proof -
  have ne: "backward_series now limit \<noteq> []"
    using assms backward_series_length [of now limit] by auto
  have "last (backward_series now limit) = backward_series now limit ! (nat limit - 1)"
    using ne by (simp add: last_conv_nth backward_series_length)
  also have "\<dots> = now"
    using assms by (simp add: backward_series_nth timedelta_minutes_def)
  finally show ?thesis .
qed

lemma forward_series_length: "length (forward_series now limit) = nat limit"
  by (simp add: forward_series_def length_py_range)

lemma forward_series_nth:
  "j < nat limit \<Longrightarrow> forward_series now limit ! j = now + timedelta_hours (int j)"
  by (simp add: forward_series_def length_py_range py_range_nth)

lemma forward_series_step:
  assumes "Suc j < nat limit"
  shows "forward_series now limit ! Suc j = forward_series now limit ! j + timedelta_hours 1"
proof -
  have "j < nat limit" using assms by simp
  then show ?thesis
    using assms by (simp add: forward_series_nth timedelta_hours_def algebra_simps)
qed

section \<open>Validation and empty ranges\<close>

lemma Query_out_of_range: "limit < ge \<or> le < limit \<Longrightarrow> Query dflt ge le (Integer limit) = None"
  by (auto simp: Query_def)

lemma generate_weather_data_empty: "limit \<le> 0 \<Longrightarrow> generate_weather_data isoformat now src limit = []"
  by (simp add: generate_weather_data_def py_range_empty for_append_def)

lemma generate_realtime_predictions_empty:
  "limit \<le> 0 \<Longrightarrow> generate_realtime_predictions isoformat now src limit = []"
  by (simp add: generate_realtime_predictions_def py_range_empty for_append_def)

lemma generate_forecast_predictions_empty:
  "limit \<le> 0 \<Longrightarrow> generate_forecast_predictions isoformat now src limit = []"
  by (simp add: generate_forecast_predictions_def py_range_empty for_append_def)

lemma generate_sample_weather_data_empty:
  "limit \<le> 0 \<Longrightarrow> generate_sample_weather_data now src limit dt = []"
  by (simp add: generate_sample_weather_data_def py_range_empty for_append_def)

section \<open>The model at a concrete input\<close>

text \<open>
  At noon, with every draw at the middle of its interval, the realtime series predicts
  the full 5 kW and an irradiance of 800: the daylight branch is taken and is not 0.
\<close>

lemma for_append_single:
  "fst (for_append body [i] ([], k)) = [fst (body i k)]"
  by (simp add: for_append_def split_def)

lemma noon_hour: "dt_hour 43200000000 = 12"
  by (simp add: dt_hour_def)

lemma round_half_even_of_int: "round_half_even (of_int m) = m"
  by (simp add: round_half_even_def)

lemma py_round_of_int: "py_round (of_int m) n = of_int m"
proof -
  have "(of_int m :: real) * 10 ^ n = of_int (m * 10 ^ n)" by simp
  then have "round_half_even (of_int m * 10 ^ n) = m * 10 ^ n"
    by (simp only: round_half_even_of_int)
  then show ?thesis by (simp add: py_round_def)
qed

lemma py_round_numeral: "py_round (numeral w) n = numeral w"
  using py_round_of_int [of "numeral w" n] by simp

lemma realtime_at_noon:
  "predicted_power_kw
     (hd (generate_realtime_predictions blank_isoformat 43200000000 (fixed_draws (1 / 2)) 1)) = 5 \<and>
   c_direct_normal_irradiance (conditions
     (hd (generate_realtime_predictions blank_isoformat 43200000000 (fixed_draws (1 / 2)) 1))) = 800"
  by (simp add: generate_realtime_predictions_def py_range_1 for_append_single
      realtime_body_def Let_def uniform_def split_def fixed_draws_def timedelta_minutes_def
      noon_hour py_round_numeral)

section \<open>Claims\<close>

text \<open>
  Claim C1. For every integer \<open>limit\<close> in \<open>[1, 100]\<close>, each of
  \<^verbatim>\<open>generate_weather_data\<close>, \<^verbatim>\<open>generate_realtime_predictions\<close> and
  \<^verbatim>\<open>generate_forecast_predictions\<close> returns a list of exactly \<open>limit\<close> records, and
  the \<^verbatim>\<open>id\<close> of the k-th record (counting from 1) is \<open>k\<close>: the ids are
  \<open>1, \<dots>, limit\<close> in order.
\<close>

theorem generators_return_limit_records_with_ids_in_order:
  assumes "1 \<le> limit" and "limit \<le> 100"
  shows "length (generate_weather_data isoformat now src limit) = nat limit \<and>
         map w_id (generate_weather_data isoformat now src limit) = [1..limit] \<and>
         length (generate_realtime_predictions isoformat now src limit) = nat limit \<and>
         map s_id (generate_realtime_predictions isoformat now src limit) = [1..limit] \<and>
         length (generate_forecast_predictions isoformat now src limit) = nat limit \<and>
         map s_id (generate_forecast_predictions isoformat now src limit) = [1..limit]"
  by (simp add: generate_weather_data_length generate_weather_data_ids
      generate_realtime_predictions_length generate_realtime_predictions_ids
      generate_forecast_predictions_length generate_forecast_predictions_ids)

theorem generators_return_limit_records_with_ids_in_order_witness:
  "(1::int) \<le> 5 \<and> (5::int) \<le> 100 \<and>
   length (generate_weather_data blank_isoformat 0 (fixed_draws 0) 5) = 5 \<and>
   map w_id (generate_weather_data blank_isoformat 0 (fixed_draws 0) 5) = [1, 2, 3, 4, 5] \<and>
   length (generate_realtime_predictions blank_isoformat 0 (fixed_draws 0) 5) = 5 \<and>
   map s_id (generate_realtime_predictions blank_isoformat 0 (fixed_draws 0) 5) = [1, 2, 3, 4, 5] \<and>
   length (generate_forecast_predictions blank_isoformat 0 (fixed_draws 0) 5) = 5 \<and>
   map s_id (generate_forecast_predictions blank_isoformat 0 (fixed_draws 0) 5) = [1, 2, 3, 4, 5]"
  using generators_return_limit_records_with_ids_in_order
          [of 5 blank_isoformat 0 "fixed_draws 0"]
  by (simp add: upto.simps)

text \<open>
  Claim C2, as stated: for every \<open>limit\<close> in \<open>[1, 100]\<close> and every time anchor, the
  record at index \<open>i\<close> of a \<^verbatim>\<open>/weather/data\<close> (and realtime solar) response has the
  timestamp \<open>now - (limit - i - 1) \<times> 5 minutes\<close>, so that the last timestamp is \<open>now\<close>.
  The \<^verbatim>\<open>/weather/data\<close> of \<^verbatim>\<open>weather_api_example.py\<close> is served by
  \<^verbatim>\<open>generate_sample_weather_data\<close>, whose timestamps run forward from \<open>now\<close> in
  steps of one hour: with \<open>limit = 2\<close> and \<open>now = 0\<close> they are \<open>0\<close> and one hour,
  where the claim asks for minus five minutes and \<open>0\<close>.
\<close>

theorem example_weather_data_is_a_forward_hourly_series:
  "map wd_timestamp (generate_sample_weather_data 0 (fixed_draws 0) 2 ''forecast'') =
     [0, 3600000000] \<and>
   backward_series 0 2 = [- 300000000, 0]"
  by (simp add: generate_sample_weather_data_timestamps forward_series_def backward_series_def
      py_range_2 timedelta_hours_def timedelta_minutes_def)

text \<open>
  Claim C2, amended: for every \<open>limit\<close> in \<open>[1, 100]\<close> and every time anchor, the
  record at index \<open>i\<close> of \<^verbatim>\<open>generate_weather_data\<close> (the weather service with the
  CORS fix) and of \<^verbatim>\<open>generate_realtime_predictions\<close> has the timestamp
  \<open>now - (limit - i - 1) \<times> 5 minutes\<close>: the instants ascend in steps of five minutes and
  the last one is \<open>now\<close>. The example's \<^verbatim>\<open>generate_sample_weather_data\<close> produces the
  forward series \<open>now + i hours\<close> instead.
\<close>

theorem backward_series_timestamps:
  assumes "1 \<le> limit" and "limit \<le> 100"
  shows "map w_timestamp (generate_weather_data isoformat now src limit) =
           map isoformat (backward_series now limit) \<and>
         map s_timestamp (generate_realtime_predictions isoformat now src limit) =
           map isoformat (backward_series now limit) \<and>
         length (backward_series now limit) = nat limit \<and>
         (\<forall>j. Suc j < nat limit \<longrightarrow>
            backward_series now limit ! Suc j =
              backward_series now limit ! j + timedelta_minutes 5) \<and>
         0 < timedelta_minutes 5 \<and>
         last (backward_series now limit) = now \<and>
         map wd_timestamp (generate_sample_weather_data now src limit data_type) =
           forward_series now limit"
  using assms(1)
  by (simp add: generate_weather_data_timestamps generate_realtime_predictions_timestamps
      backward_series_length backward_series_step backward_series_last
      generate_sample_weather_data_timestamps timedelta_minutes_def)

theorem backward_series_timestamps_witness:
  "(1::int) \<le> 2 \<and> (2::int) \<le> 100 \<and>
   map w_timestamp (generate_weather_data blank_isoformat 600000000 (fixed_draws 0) 2) =
     map blank_isoformat [300000000, 600000000] \<and>
   map s_timestamp (generate_realtime_predictions blank_isoformat 600000000 (fixed_draws 0) 2) =
     map blank_isoformat [300000000, 600000000] \<and>
   backward_series 600000000 2 = [300000000, 600000000] \<and>
   backward_series 600000000 2 ! Suc 0 = backward_series 600000000 2 ! 0 + timedelta_minutes 5 \<and>
   last (backward_series 600000000 2) = 600000000"
proof -
  have series: "backward_series 600000000 2 = [300000000, 600000000]"
    by (simp add: backward_series_def py_range_2 timedelta_minutes_def)
  show ?thesis
    using backward_series_timestamps [of 2 blank_isoformat 600000000 "fixed_draws 0"]
    by (simp add: series timedelta_minutes_def)
qed

text \<open>
  Claim C7. For every \<open>limit\<close> in \<open>[1, 100]\<close> and every time anchor,
  \<^verbatim>\<open>generate_forecast_predictions\<close> produces records whose timestamp at index \<open>i\<close> is
  \<open>now + i hours\<close>, strictly increasing by exactly one hour, and whose
  \<^verbatim>\<open>forecast_type\<close> is the constant \<^verbatim>\<open>"hourly"\<close> in every record.
\<close>

theorem forecast_series_is_hourly:
  assumes "1 \<le> limit" and "limit \<le> 100"
  shows "map s_timestamp (generate_forecast_predictions isoformat now src limit) =
           map isoformat (forward_series now limit) \<and>
         length (forward_series now limit) = nat limit \<and>
         (\<forall>j < nat limit. forward_series now limit ! j = now + timedelta_hours (int j)) \<and>
         (\<forall>j. Suc j < nat limit \<longrightarrow>
            forward_series now limit ! Suc j = forward_series now limit ! j + timedelta_hours 1) \<and>
         0 < timedelta_hours 1 \<and>
         map forecast_type (generate_forecast_predictions isoformat now src limit) =
           replicate (nat limit) (Some ''hourly'')"
proof -
  have "map forecast_type (generate_forecast_predictions isoformat now src limit) =
          map (\<lambda>i. Some ''hourly'') (py_range limit)"
    unfolding generate_forecast_predictions_def
    by (rule for_append_map) (rule forecast_body_forecast_type)
  then have "map forecast_type (generate_forecast_predictions isoformat now src limit) =
          replicate (nat limit) (Some ''hourly'')"
    by (simp add: map_replicate_const length_py_range)
  then show ?thesis
    by (simp add: generate_forecast_predictions_timestamps forward_series_length
        forward_series_nth forward_series_step timedelta_hours_def)
qed

theorem forecast_series_is_hourly_witness:
  "(1::int) \<le> 3 \<and> (3::int) \<le> 100 \<and>
   map s_timestamp (generate_forecast_predictions blank_isoformat 0 (fixed_draws 0) 3) =
     map blank_isoformat [0, 3600000000, 7200000000] \<and>
   forward_series 0 3 = [0, 3600000000, 7200000000] \<and>
   map forecast_type (generate_forecast_predictions blank_isoformat 0 (fixed_draws 0) 3) =
     [Some ''hourly'', Some ''hourly'', Some ''hourly'']"
proof -
  have series: "forward_series 0 3 = [0, 3600000000, 7200000000]"
    by (simp add: forward_series_def py_range_def upto.simps timedelta_hours_def)
  show ?thesis
    using forecast_series_is_hourly [of 3 blank_isoformat 0 "fixed_draws 0"]
    by (simp add: series numeral_3_eq_3)
qed

text \<open>
  Claim C3. For every record produced by the solar generators and every random draw, if
  the hour of day of the record's timestamp lies outside \<open>[6, 18]\<close>, then
  \<^verbatim>\<open>predicted_power_kw\<close> is 0 and \<^verbatim>\<open>direct_normal_irradiance\<close> is 0. The record at
  index \<open>j\<close> carries the rendering of the instant whose hour decides.
\<close>

theorem night_records_have_no_power_and_no_irradiance:
  assumes "j < nat limit"
  shows "s_timestamp (generate_realtime_predictions isoformat now src limit ! j) =
           isoformat (now - timedelta_minutes ((limit - int j - 1) * 5)) \<and>
         (\<not> (6 \<le> dt_hour (now - timedelta_minutes ((limit - int j - 1) * 5)) \<and>
              dt_hour (now - timedelta_minutes ((limit - int j - 1) * 5)) \<le> 18) \<longrightarrow>
          predicted_power_kw (generate_realtime_predictions isoformat now src limit ! j) = 0 \<and>
          c_direct_normal_irradiance
            (conditions (generate_realtime_predictions isoformat now src limit ! j)) = 0) \<and>
         s_timestamp (generate_forecast_predictions isoformat now src limit ! j) =
           isoformat (now + timedelta_hours (int j)) \<and>
         (\<not> (6 \<le> dt_hour (now + timedelta_hours (int j)) \<and>
              dt_hour (now + timedelta_hours (int j)) \<le> 18) \<longrightarrow>
          predicted_power_kw (generate_forecast_predictions isoformat now src limit ! j) = 0 \<and>
          c_direct_normal_irradiance
            (conditions (generate_forecast_predictions isoformat now src limit ! j)) = 0)"
proof -
  obtain k where rt: "generate_realtime_predictions isoformat now src limit ! j =
      fst (realtime_body isoformat now src limit (int j) k)"
    using generate_realtime_predictions_nth [OF assms] by blast
  obtain k' where fc: "generate_forecast_predictions isoformat now src limit ! j =
      fst (forecast_body isoformat now src (int j) k')"
    using generate_forecast_predictions_nth [OF assms] by blast
  show ?thesis
    unfolding rt fc
    using realtime_body_night [of now limit "int j" isoformat src k]
      forecast_body_night [of now "int j" isoformat src k']
    by (simp only: realtime_body_timestamp forecast_body_timestamp) blast
qed

theorem night_records_have_no_power_and_no_irradiance_witness:
  "(0::nat) < nat 1 \<and>
   \<not> (6 \<le> dt_hour (0 - timedelta_minutes ((1 - int 0 - 1) * 5)) \<and>
       dt_hour (0 - timedelta_minutes ((1 - int 0 - 1) * 5)) \<le> 18) \<and>
   predicted_power_kw (generate_realtime_predictions blank_isoformat 0 (fixed_draws 0) 1 ! 0) = 0 \<and>
   c_direct_normal_irradiance
     (conditions (generate_realtime_predictions blank_isoformat 0 (fixed_draws 0) 1 ! 0)) = 0 \<and>
   \<not> (6 \<le> dt_hour (0 + timedelta_hours (int 0)) \<and> dt_hour (0 + timedelta_hours (int 0)) \<le> 18) \<and>
   predicted_power_kw (generate_forecast_predictions blank_isoformat 0 (fixed_draws 0) 1 ! 0) = 0 \<and>
   c_direct_normal_irradiance
     (conditions (generate_forecast_predictions blank_isoformat 0 (fixed_draws 0) 1 ! 0)) = 0"
  using night_records_have_no_power_and_no_irradiance [of 0 1 blank_isoformat 0 "fixed_draws 0"]
  by (simp add: dt_hour_def timedelta_minutes_def timedelta_hours_def)

text \<open>
  Claim C4. For every record produced by any generator and for every draw of the jitter,
  \<^verbatim>\<open>predicted_power_kw\<close> and \<^verbatim>\<open>direct_normal_irradiance\<close> are at least 0: the
  clamp \<^verbatim>\<open>max(0, \<dots>)\<close> is applied after the jitter is added. No assumption is made
  on the random source.
\<close>

theorem power_and_irradiance_are_never_negative:
  "(\<forall>r \<in> set (generate_realtime_predictions isoformat now src limit).
      0 \<le> predicted_power_kw r \<and> 0 \<le> c_direct_normal_irradiance (conditions r)) \<and>
   (\<forall>r \<in> set (generate_forecast_predictions isoformat now src limit).
      0 \<le> predicted_power_kw r \<and> 0 \<le> c_direct_normal_irradiance (conditions r)) \<and>
   (\<forall>r \<in> set (generate_weather_data isoformat now src limit).
      0 \<le> w_direct_normal_irradiance r) \<and>
   (\<forall>r \<in> set (generate_sample_weather_data now src limit data_type).
      0 \<le> wd_direct_normal_irradiance r)"
proof (intro conjI ballI)
  fix r assume "r \<in> set (generate_realtime_predictions isoformat now src limit)"
  then obtain i k where "r = fst (realtime_body isoformat now src limit i k)"
    using generate_realtime_predictions_set by blast
  then show "0 \<le> predicted_power_kw r" "0 \<le> c_direct_normal_irradiance (conditions r)"
    using realtime_body_nonneg [of isoformat now src limit i k] by simp_all
next
  fix r assume "r \<in> set (generate_forecast_predictions isoformat now src limit)"
  then obtain i k where "r = fst (forecast_body isoformat now src i k)"
    using generate_forecast_predictions_set by blast
  then show "0 \<le> predicted_power_kw r" "0 \<le> c_direct_normal_irradiance (conditions r)"
    using forecast_body_nonneg [of isoformat now src i k] by simp_all
next
  fix r assume "r \<in> set (generate_weather_data isoformat now src limit)"
  then obtain i k where "r = fst (weather_data_body isoformat now src limit i k)"
    using generate_weather_data_set by blast
  then show "0 \<le> w_direct_normal_irradiance r"
    using weather_data_body_irradiance [of isoformat now src limit i k] by simp
next
  fix r assume "r \<in> set (generate_sample_weather_data now src limit data_type)"
  then obtain i k where "r = fst (sample_weather_body now src data_type i k)"
    using generate_sample_weather_data_set by blast
  then show "0 \<le> wd_direct_normal_irradiance r"
    using sample_weather_body_irradiance [of now src data_type i k] by simp
qed

theorem power_and_irradiance_are_never_negative_witness:
  "generate_realtime_predictions blank_isoformat 43200000000 (fixed_draws 0) 1 \<noteq> [] \<and>
   0 \<le> predicted_power_kw
         (hd (generate_realtime_predictions blank_isoformat 43200000000 (fixed_draws 0) 1)) \<and>
   0 \<le> c_direct_normal_irradiance (conditions
         (hd (generate_realtime_predictions blank_isoformat 43200000000 (fixed_draws 0) 1))) \<and>
   generate_forecast_predictions blank_isoformat 43200000000 (fixed_draws 0) 1 \<noteq> [] \<and>
   0 \<le> predicted_power_kw
         (hd (generate_forecast_predictions blank_isoformat 43200000000 (fixed_draws 0) 1)) \<and>
   0 \<le> c_direct_normal_irradiance (conditions
         (hd (generate_forecast_predictions blank_isoformat 43200000000 (fixed_draws 0) 1))) \<and>
   generate_weather_data blank_isoformat 43200000000 (fixed_draws 0) 1 \<noteq> [] \<and>
   0 \<le> w_direct_normal_irradiance
         (hd (generate_weather_data blank_isoformat 43200000000 (fixed_draws 0) 1)) \<and>
   generate_sample_weather_data 43200000000 (fixed_draws 0) 1 ''forecast'' \<noteq> [] \<and>
   0 \<le> wd_direct_normal_irradiance
         (hd (generate_sample_weather_data 43200000000 (fixed_draws 0) 1 ''forecast''))"
proof -
  have ne:
    "generate_realtime_predictions blank_isoformat 43200000000 (fixed_draws 0) 1 \<noteq> []"
    "generate_forecast_predictions blank_isoformat 43200000000 (fixed_draws 0) 1 \<noteq> []"
    "generate_weather_data blank_isoformat 43200000000 (fixed_draws 0) 1 \<noteq> []"
    "generate_sample_weather_data 43200000000 (fixed_draws 0) 1 ''forecast'' \<noteq> []"
    using generate_realtime_predictions_length [of blank_isoformat 43200000000 "fixed_draws 0" 1]
      generate_forecast_predictions_length [of blank_isoformat 43200000000 "fixed_draws 0" 1]
      generate_weather_data_length [of blank_isoformat 43200000000 "fixed_draws 0" 1]
      generate_sample_weather_data_length [of 43200000000 "fixed_draws 0" 1 "''forecast''"]
    by auto
  note all = power_and_irradiance_are_never_negative
            [of blank_isoformat 43200000000 "fixed_draws 0" 1 "''forecast''"]
  show ?thesis
    using all ne by (simp only: hd_in_set simp_thms)
qed

text \<open>
  Claim C5. For every record produced by any generator and every random draw,
  \<^verbatim>\<open>relative_humidity_2m\<close> lies within the bounds documented for its variant
  (\<open>[30, 90]\<close> or \<open>[35, 85]\<close>) and \<^verbatim>\<open>cloud_cover\<close> within those documented for its
  variant (\<open>[0, 50]\<close>, \<open>[0, 60]\<close> or \<open>[0, 100]\<close>). A random draw is a value of
  \<^verbatim>\<open>random.random()\<close>, in \<open>[0, 1)\<close>.
\<close>

theorem humidity_and_cloud_cover_stay_in_bounds:
  assumes "in_unit_interval src"
  shows "(\<forall>r \<in> set (generate_weather_data isoformat now src limit).
            30 \<le> w_relative_humidity_2m r \<and> w_relative_humidity_2m r \<le> 90 \<and>
            0 \<le> w_cloud_cover r \<and> w_cloud_cover r \<le> 100) \<and>
         (\<forall>r \<in> set (generate_realtime_predictions isoformat now src limit).
            30 \<le> c_relative_humidity_2m (conditions r) \<and>
            c_relative_humidity_2m (conditions r) \<le> 90 \<and>
            0 \<le> c_cloud_cover (conditions r) \<and> c_cloud_cover (conditions r) \<le> 60) \<and>
         (\<forall>r \<in> set (generate_forecast_predictions isoformat now src limit).
            35 \<le> c_relative_humidity_2m (conditions r) \<and>
            c_relative_humidity_2m (conditions r) \<le> 85 \<and>
            0 \<le> c_cloud_cover (conditions r) \<and> c_cloud_cover (conditions r) \<le> 50) \<and>
         (\<forall>r \<in> set (generate_sample_weather_data now src limit data_type).
            35 \<le> wd_relative_humidity_2m r \<and> wd_relative_humidity_2m r \<le> 85 \<and>
            0 \<le> wd_cloud_cover r \<and> wd_cloud_cover r \<le> 100)"
proof (intro conjI ballI)
  fix r assume "r \<in> set (generate_weather_data isoformat now src limit)"
  then obtain i k where r: "r = fst (weather_data_body isoformat now src limit i k)"
    using generate_weather_data_set by blast
  show "30 \<le> w_relative_humidity_2m r" "w_relative_humidity_2m r \<le> 90"
    using weather_data_body_humidity [of isoformat now src limit i k] r by simp_all
  show "0 \<le> w_cloud_cover r" "w_cloud_cover r \<le> 100"
    using weather_data_body_cloud_cover [OF assms, of isoformat now limit i k] r by simp_all
next
  fix r assume "r \<in> set (generate_realtime_predictions isoformat now src limit)"
  then obtain i k where r: "r = fst (realtime_body isoformat now src limit i k)"
    using generate_realtime_predictions_set by blast
  show "30 \<le> c_relative_humidity_2m (conditions r)" "c_relative_humidity_2m (conditions r) \<le> 90"
    "0 \<le> c_cloud_cover (conditions r)" "c_cloud_cover (conditions r) \<le> 60"
    using realtime_body_bounds [OF assms, of isoformat now limit i k] r by simp_all
next
  fix r assume "r \<in> set (generate_forecast_predictions isoformat now src limit)"
  then obtain i k where r: "r = fst (forecast_body isoformat now src i k)"
    using generate_forecast_predictions_set by blast
  show "35 \<le> c_relative_humidity_2m (conditions r)" "c_relative_humidity_2m (conditions r) \<le> 85"
    "0 \<le> c_cloud_cover (conditions r)" "c_cloud_cover (conditions r) \<le> 50"
    using forecast_body_bounds [OF assms, of isoformat now i k] r by simp_all
next
  fix r assume "r \<in> set (generate_sample_weather_data now src limit data_type)"
  then obtain i k where r: "r = fst (sample_weather_body now src data_type i k)"
    using generate_sample_weather_data_set by blast
  show "35 \<le> wd_relative_humidity_2m r" "wd_relative_humidity_2m r \<le> 85"
    "0 \<le> wd_cloud_cover r" "wd_cloud_cover r \<le> 100"
    using sample_weather_body_bounds [OF assms, of now data_type i k] r by simp_all
qed

theorem humidity_and_cloud_cover_stay_in_bounds_witness:
  "in_unit_interval (fixed_draws (1 / 2)) \<and>
   generate_weather_data blank_isoformat 0 (fixed_draws (1 / 2)) 1 \<noteq> [] \<and>
   30 \<le> w_relative_humidity_2m
          (hd (generate_weather_data blank_isoformat 0 (fixed_draws (1 / 2)) 1)) \<and>
   w_cloud_cover (hd (generate_weather_data blank_isoformat 0 (fixed_draws (1 / 2)) 1)) \<le> 100 \<and>
   generate_realtime_predictions blank_isoformat 0 (fixed_draws (1 / 2)) 1 \<noteq> [] \<and>
   c_relative_humidity_2m (conditions
     (hd (generate_realtime_predictions blank_isoformat 0 (fixed_draws (1 / 2)) 1))) \<le> 90 \<and>
   c_cloud_cover (conditions
     (hd (generate_realtime_predictions blank_isoformat 0 (fixed_draws (1 / 2)) 1))) \<le> 60 \<and>
   generate_forecast_predictions blank_isoformat 0 (fixed_draws (1 / 2)) 1 \<noteq> [] \<and>
   35 \<le> c_relative_humidity_2m (conditions
     (hd (generate_forecast_predictions blank_isoformat 0 (fixed_draws (1 / 2)) 1))) \<and>
   c_cloud_cover (conditions
     (hd (generate_forecast_predictions blank_isoformat 0 (fixed_draws (1 / 2)) 1))) \<le> 50 \<and>
   generate_sample_weather_data 0 (fixed_draws (1 / 2)) 1 ''forecast'' \<noteq> [] \<and>
   wd_relative_humidity_2m
     (hd (generate_sample_weather_data 0 (fixed_draws (1 / 2)) 1 ''forecast'')) \<le> 85 \<and>
   wd_cloud_cover (hd (generate_sample_weather_data 0 (fixed_draws (1 / 2)) 1 ''forecast'')) \<le> 100"
proof -
  have unit: "in_unit_interval (fixed_draws (1 / 2))"
    by (simp add: in_unit_interval_def fixed_draws_def)
  have ne:
    "generate_weather_data blank_isoformat 0 (fixed_draws (1 / 2)) 1 \<noteq> []"
    "generate_realtime_predictions blank_isoformat 0 (fixed_draws (1 / 2)) 1 \<noteq> []"
    "generate_forecast_predictions blank_isoformat 0 (fixed_draws (1 / 2)) 1 \<noteq> []"
    "generate_sample_weather_data 0 (fixed_draws (1 / 2)) 1 ''forecast'' \<noteq> []"
    using generate_weather_data_length [of blank_isoformat 0 "fixed_draws (1 / 2)" 1]
      generate_realtime_predictions_length [of blank_isoformat 0 "fixed_draws (1 / 2)" 1]
      generate_forecast_predictions_length [of blank_isoformat 0 "fixed_draws (1 / 2)" 1]
      generate_sample_weather_data_length [of 0 "fixed_draws (1 / 2)" 1 "''forecast''"]
    by auto
  note all = humidity_and_cloud_cover_stay_in_bounds
      [OF unit, of blank_isoformat 0 1 "''forecast''"]
  show ?thesis
    using all ne unit by (simp only: hd_in_set simp_thms)
qed

text \<open>
  Claim C6, as stated: every request to \<^verbatim>\<open>/weather/data\<close> with \<open>limit = 0\<close>,
  \<open>limit = 101\<close> or any other limit outside \<open>[1, 100]\<close> is rejected by the endpoint
  layer with status 422 and never returns a record array. The \<^verbatim>\<open>/weather/data\<close> of
  \<^verbatim>\<open>weather_api_example.py\<close> declares \<^verbatim>\<open>limit: int = 20\<close> without bounds: it answers
  \<open>limit = 0\<close> with an empty array and \<open>limit = 101\<close> with 101 records.
\<close>

theorem example_weather_data_accepts_any_limit:
  "example_get_weather_data 0 (fixed_draws 0) (Integer 0) = HTTP_200 [] \<and>
   example_get_weather_data 0 (fixed_draws 0) (Integer 101) =
     HTTP_200 (generate_sample_weather_data 0 (fixed_draws 0) 101 ''forecast'') \<and>
   length (generate_sample_weather_data 0 (fixed_draws 0) 101 ''forecast'') = 101"
  by (simp add: example_get_weather_data_def plain_int_def generate_sample_weather_data_empty
      generate_sample_weather_data_length)

text \<open>
  Claim C6, amended: in the services with the CORS fix, every request to
  \<^verbatim>\<open>/weather/data\<close>, \<^verbatim>\<open>/weather-data\<close>, \<^verbatim>\<open>/solar-predictions\<close> or
  \<^verbatim>\<open>/solar-predictions/forecast\<close> with a limit outside \<open>[1, 100]\<close> is rejected with
  status 422 and returns no record array. The generators perform no validation: for
  \<open>limit \<le> 0\<close> they return the empty list, and for any other limit whose first and
  last instants are datetimes they return \<open>limit\<close> records. Both endpoints of
  \<^verbatim>\<open>weather_api_example.py\<close> declare no range: under the same conditions they answer
  with success and what their generator returns.
\<close>

theorem cors_fix_endpoints_reject_limit_out_of_range:
  assumes "limit < 1 \<or> 100 < limit"
  shows "get_weather_data isoformat now src (Integer limit) = HTTP_422 \<and>
         get_weather_data_alt isoformat now src (Integer limit) data_type_q = HTTP_422 \<and>
         get_solar_predictions isoformat now src (Integer limit) = HTTP_422 \<and>
         get_forecast_predictions isoformat now src (Integer limit) = HTTP_422 \<and>
         (limit \<le> 0 \<longrightarrow>
            generate_weather_data isoformat now src limit = [] \<and>
            generate_realtime_predictions isoformat now src limit = [] \<and>
            generate_forecast_predictions isoformat now src limit = [] \<and>
            example_get_weather_data now src (Integer limit) = HTTP_200 [] \<and>
            get_weather_data_alternative now src (Integer limit) data_type_q = HTTP_200 []) \<and>
         (in_datetime_range (now - timedelta_minutes ((limit - 1) * 5)) \<and>
          in_datetime_range now \<longrightarrow>
            length (generate_weather_data isoformat now src limit) = nat limit \<and>
            length (generate_realtime_predictions isoformat now src limit) = nat limit) \<and>
         (in_datetime_range now \<and> in_datetime_range (now + timedelta_hours (limit - 1)) \<longrightarrow>
            length (generate_forecast_predictions isoformat now src limit) = nat limit \<and>
            example_get_weather_data now src (Integer limit) =
              HTTP_200 (generate_sample_weather_data now src limit ''forecast'') \<and>
            get_weather_data_alternative now src (Integer limit) data_type_q =
              HTTP_200 (generate_sample_weather_data now src limit
                          (plain_str ''forecast'' data_type_q)) \<and>
            length (generate_sample_weather_data now src limit ''forecast'') = nat limit \<and>
            length (generate_sample_weather_data now src limit
                      (plain_str ''forecast'' data_type_q)) = nat limit)"
  using Query_out_of_range [OF assms]
  by (simp add: get_weather_data_def get_weather_data_alt_def get_solar_predictions_def
      get_forecast_predictions_def example_get_weather_data_def
      get_weather_data_alternative_def plain_int_def
      generate_weather_data_length generate_realtime_predictions_length
      generate_forecast_predictions_length generate_sample_weather_data_length
      generate_weather_data_empty generate_realtime_predictions_empty
      generate_forecast_predictions_empty generate_sample_weather_data_empty)

theorem cors_fix_endpoints_reject_limit_out_of_range_witness:
  "((101::int) < 1 \<or> (100::int) < 101) \<and>
   in_datetime_range (63929347200000000 - timedelta_minutes ((101 - 1) * 5)) \<and>
   in_datetime_range 63929347200000000 \<and>
   in_datetime_range (63929347200000000 + timedelta_hours (101 - 1)) \<and>
   get_weather_data blank_isoformat 63929347200000000 (fixed_draws 0) (Integer 101) =
     HTTP_422 \<and>
   get_weather_data_alt blank_isoformat 63929347200000000 (fixed_draws 0) (Integer 101) None =
     HTTP_422 \<and>
   get_solar_predictions blank_isoformat 63929347200000000 (fixed_draws 0) (Integer 101) =
     HTTP_422 \<and>
   get_forecast_predictions blank_isoformat 63929347200000000 (fixed_draws 0) (Integer 101) =
     HTTP_422 \<and>
   length (generate_weather_data blank_isoformat 63929347200000000 (fixed_draws 0) 101) = 101 \<and>
   length (generate_realtime_predictions blank_isoformat 63929347200000000 (fixed_draws 0) 101) =
     101 \<and>
   length (generate_forecast_predictions blank_isoformat 63929347200000000 (fixed_draws 0) 101) =
     101 \<and>
   example_get_weather_data 63929347200000000 (fixed_draws 0) (Integer 101) =
     HTTP_200 (generate_sample_weather_data 63929347200000000 (fixed_draws 0) 101 ''forecast'') \<and>
   get_weather_data_alternative 63929347200000000 (fixed_draws 0) (Integer 101) None =
     HTTP_200 (generate_sample_weather_data 63929347200000000 (fixed_draws 0) 101 ''forecast'') \<and>
   length (generate_sample_weather_data 63929347200000000 (fixed_draws 0) 101 ''forecast'') =
     101 \<and>
   ((0::int) < 1 \<or> (100::int) < 0) \<and> (0::int) \<le> 0 \<and>
   get_weather_data blank_isoformat 63929347200000000 (fixed_draws 0) (Integer 0) = HTTP_422 \<and>
   generate_weather_data blank_isoformat 63929347200000000 (fixed_draws 0) 0 = [] \<and>
   generate_realtime_predictions blank_isoformat 63929347200000000 (fixed_draws 0) 0 = [] \<and>
   generate_forecast_predictions blank_isoformat 63929347200000000 (fixed_draws 0) 0 = [] \<and>
   get_weather_data_alternative 63929347200000000 (fixed_draws 0) (Integer 0) None =
     HTTP_200 []"
  using cors_fix_endpoints_reject_limit_out_of_range
          [of 101 blank_isoformat 63929347200000000 "fixed_draws 0" None]
        cors_fix_endpoints_reject_limit_out_of_range
          [of 0 blank_isoformat 63929347200000000 "fixed_draws 0" None]
  by (simp add: in_datetime_range_def datetime_max_def timedelta_minutes_def
      timedelta_hours_def plain_str_def)

text \<open>
  Claim C8. An \<^verbatim>\<open>OPTIONS\<close> preflight to any documented route with the header
  \<^verbatim>\<open>Origin: http://localhost:5173\<close> is answered with success and an
  \<^verbatim>\<open>Access-Control-Allow-Origin\<close> equal to that origin, because the origin is in each
  service's fixed allow-list and \<^verbatim>\<open>allow_credentials\<close> is true. The allow-lists are
  those of the source; the answer is that of the middleware as the specification words
  it, the same for every path.
\<close>

theorem preflight_from_the_dashboard_origin_is_accepted:
  "''http://localhost:5173'' \<in> set (allow_origins weather_cors) \<and>
   allow_credentials weather_cors \<and>
   status (preflight weather_cors path ''http://localhost:5173'') = 200 \<and>
   access_control_allow_origin (preflight weather_cors path ''http://localhost:5173'') =
     Some ''http://localhost:5173'' \<and>
   access_control_allow_credentials (preflight weather_cors path ''http://localhost:5173'') \<and>
   ''http://localhost:5173'' \<in> set (allow_origins solar_cors) \<and>
   allow_credentials solar_cors \<and>
   status (preflight solar_cors path ''http://localhost:5173'') = 200 \<and>
   access_control_allow_origin (preflight solar_cors path ''http://localhost:5173'') =
     Some ''http://localhost:5173'' \<and>
   access_control_allow_credentials (preflight solar_cors path ''http://localhost:5173'') \<and>
   ''http://localhost:5173'' \<in> set (allow_origins example_cors) \<and>
   allow_credentials example_cors \<and>
   status (preflight example_cors path ''http://localhost:5173'') = 200 \<and>
   access_control_allow_origin (preflight example_cors path ''http://localhost:5173'') =
     Some ''http://localhost:5173'' \<and>
   access_control_allow_credentials (preflight example_cors path ''http://localhost:5173'')"
  by (simp add: preflight_def weather_cors_def solar_cors_def example_cors_def)

text \<open>
  Claim C9. For every integer \<open>limit \<le> 0\<close> each generator returns the empty list: the
  loop over \<^verbatim>\<open>range(limit)\<close> is vacuous and nothing can raise. In
  \<^verbatim>\<open>weather_api_example.py\<close>, which declares no range,
  \<^verbatim>\<open>GET /weather/data?limit=0\<close> therefore yields an empty array with a success status
  rather than status 422.
\<close>

theorem generators_return_nothing_for_limit_below_one:
  assumes "limit \<le> 0"
  shows "generate_weather_data isoformat now src limit = [] \<and>
         generate_realtime_predictions isoformat now src limit = [] \<and>
         generate_forecast_predictions isoformat now src limit = [] \<and>
         generate_sample_weather_data now src limit data_type = [] \<and>
         example_get_weather_data now src (Integer limit) = HTTP_200 []"
  using assms
  by (simp add: generate_weather_data_empty generate_realtime_predictions_empty
      generate_forecast_predictions_empty generate_sample_weather_data_empty
      example_get_weather_data_def plain_int_def)

theorem generators_return_nothing_for_limit_below_one_witness:
  "(0::int) \<le> 0 \<and>
   generate_weather_data blank_isoformat 0 (fixed_draws 0) 0 = [] \<and>
   generate_realtime_predictions blank_isoformat 0 (fixed_draws 0) 0 = [] \<and>
   generate_forecast_predictions blank_isoformat 0 (fixed_draws 0) 0 = [] \<and>
   generate_sample_weather_data 0 (fixed_draws 0) 0 ''forecast'' = [] \<and>
   example_get_weather_data 0 (fixed_draws 0) (Integer 0) = HTTP_200 []"
  using generators_return_nothing_for_limit_below_one
          [of 0 blank_isoformat 0 "fixed_draws 0" "''forecast''"]
  by simp

text \<open>
  Claim C10. In the weather service with the CORS fix, the response of
  \<^verbatim>\<open>/weather-data\<close> does not depend on the query parameter \<^verbatim>\<open>data_type\<close>: for the
  same limit, clock reading and random draws, any two values of it give the same
  response, and the \<^verbatim>\<open>data_type\<close> of every record is the constant \<^verbatim>\<open>"forecast"\<close>.
\<close>

theorem weather_data_alt_ignores_data_type:
  "get_weather_data_alt isoformat now src limit_q data_type_q =
     get_weather_data_alt isoformat now src limit_q data_type_q' \<and>
   (\<forall>recs. get_weather_data_alt isoformat now src limit_q data_type_q = HTTP_200 recs \<longrightarrow>
      (\<forall>r \<in> set recs. w_data_type r = ''forecast''))"
proof (intro conjI allI impI ballI)
  show "get_weather_data_alt isoformat now src limit_q data_type_q =
     get_weather_data_alt isoformat now src limit_q data_type_q'"
    by (simp add: get_weather_data_alt_def Let_def split: option.splits)
next
  fix recs r
  assume resp: "get_weather_data_alt isoformat now src limit_q data_type_q = HTTP_200 recs"
    and r: "r \<in> set recs"
  from resp obtain limit where "recs = generate_weather_data isoformat now src limit"
    by (auto simp: get_weather_data_alt_def Let_def split: option.splits)
  with r obtain i k where "r = fst (weather_data_body isoformat now src limit i k)"
    using generate_weather_data_set by blast
  then show "w_data_type r = ''forecast''"
    by (simp add: weather_data_body_data_type)
qed

theorem weather_data_alt_ignores_data_type_witness:
  "get_weather_data_alt blank_isoformat 0 (fixed_draws 0) (Integer 1) (Some ''historical'') =
     get_weather_data_alt blank_isoformat 0 (fixed_draws 0) (Integer 1) None \<and>
   get_weather_data_alt blank_isoformat 0 (fixed_draws 0) (Integer 1) (Some ''historical'') =
     HTTP_200 (generate_weather_data blank_isoformat 0 (fixed_draws 0) 1) \<and>
   generate_weather_data blank_isoformat 0 (fixed_draws 0) 1 \<noteq> [] \<and>
   w_data_type (hd (generate_weather_data blank_isoformat 0 (fixed_draws 0) 1)) = ''forecast''"
proof -
  have resp:
    "get_weather_data_alt blank_isoformat 0 (fixed_draws 0) (Integer 1) (Some ''historical'') =
       HTTP_200 (generate_weather_data blank_isoformat 0 (fixed_draws 0) 1)"
    by (simp add: get_weather_data_alt_def Query_def Let_def)
  have ne: "generate_weather_data blank_isoformat 0 (fixed_draws 0) 1 \<noteq> []"
    using generate_weather_data_length [of blank_isoformat 0 "fixed_draws 0" 1] by auto
  note all = weather_data_alt_ignores_data_type
      [of blank_isoformat 0 "fixed_draws 0" "Integer 1" "Some ''historical''" None]
  from all resp have "\<forall>r \<in> set (generate_weather_data blank_isoformat 0 (fixed_draws 0) 1).
      w_data_type r = ''forecast''"
    by blast
  with ne have "w_data_type (hd (generate_weather_data blank_isoformat 0 (fixed_draws 0) 1)) =
      ''forecast''"
    using hd_in_set [OF ne] by blast
  with all resp ne show ?thesis by (simp only: simp_thms)
qed

end
